theory Spec2Isabelle
  imports Main "HOL-Library.Word"
begin

section \<open>Time and durations\<close>

text \<open>
  An instant (Go's \<open>time.Time\<close>, read on the UTC timeline, without monotonic reading:
  \<open>UTC()\<close> strips it) is its number of nanoseconds since the epoch. A \<open>time.Duration\<close>
  is an int64 count of nanoseconds; \<open>Sub\<close> saturates at the ends of that range, as the
  library documents.
\<close>

type_synonym time = int
type_synonym duration = int

definition maxDuration :: duration where
  "maxDuration = 2 ^ 63 - 1"

definition minDuration :: duration where
  "minDuration = - (2 ^ 63)"

definition Second :: duration where
  "Second = 1000000000"

definition Minute :: duration where
  "Minute = 60 * Second"

definition oldEventAgeMinutes :: int where
  "oldEventAgeMinutes = 5"

definition After :: "time \<Rightarrow> time \<Rightarrow> bool" where
  "After t u = (u < t)"

definition Sub :: "time \<Rightarrow> time \<Rightarrow> duration" where
  "Sub t u =
     (let d = t - u
      in if maxDuration < d then maxDuration
         else if d < minDuration then minDuration
         else d)"

text \<open>\<open>time.Since(t)\<close> is \<open>time.Now().Sub(t)\<close>; the wall clock reading is a parameter.\<close>

definition Since :: "time \<Rightarrow> time \<Rightarrow> duration" where
  "Since now t = Sub now t"

text \<open>
  \<open>Duration.Round(m)\<close>: the nearest multiple of \<open>m\<close>, halves away from zero, saturating
  where the result leaves the int64 range. Go's \<open>%\<close> truncates, so for a negative \<open>d\<close> the
  remainder is taken of \<open>- d\<close>.
\<close>

definition Round :: "duration \<Rightarrow> duration \<Rightarrow> duration" where
  "Round d m =
     (if m \<le> 0 then d
      else if d < 0 then
        (let r = (- d) mod m
         in if r + r < m then d + r
            else if minDuration \<le> d - m + r then d - m + r
            else minDuration)
      else
        (let r = d mod m
         in if r + r < m then d - r
            else if d + m - r \<le> maxDuration then d + m - r
            else maxDuration))"

section \<open>Events, objects and the watcher's state\<close>

text \<open>The fields of \<open>corev1.Event\<close> that the program reads.\<close>

record event =
  Namespace :: string
  Name :: string
  ResourceVersion :: string
  Message :: string
  LastTimestamp :: time
  Count :: "32 word"

text \<open>
  A value of type \<open>interface{}\<close> handed to a handler: a \<open>*corev1.Event\<close> (possibly the
  nil pointer), or anything else (a value of another dynamic type, or the nil interface
  value), named by a string.
\<close>

datatype obj = EventPtr "event option" | OtherObj string

datatype panic = TypeAssertion | NilDereference | NonPositiveInterval

datatype log_record =
    LogInfo string
  | LogError string string
  | LogEvent string event duration
  | StatsStoreSize nat
  | StatsCounters "32 word" "32 word" "32 word"
  | StatsDelta "32 word" "32 word" "32 word"

text \<open>
  The state the handlers work on: the fields of \<open>EventWatcher\<close> they use (the Prometheus
  counters carry the prefix \<open>ew_\<close>, as the struct fields share their names with the
  package-level int32 counters), the records written to the logger, oldest first, and the
  three package-level counters \<open>addCounter\<close>, \<open>updateCounter\<close>, \<open>deleteCounter\<close>.
\<close>

record state =
  startTime :: time
  store :: "string \<rightharpoonup> event"
  logger :: "log_record list"
  ew_addCounter :: nat
  ew_updateCounter :: nat
  ew_deleteCounter :: nat
  ew_oldEventsCounter :: nat
  addCounter :: "32 word"
  updateCounter :: "32 word"
  deleteCounter :: "32 word"

section \<open>The staleness test\<close>

text \<open>\<open>isOldEvent\<close> of cmd/k8s-event-tailer/eventwatcher.go.\<close>

definition isOldEvent :: "state \<Rightarrow> event \<Rightarrow> bool" where
  "isOldEvent ew event =
     (if After (LastTimestamp event) (startTime ew) then False
      else oldEventAgeMinutes * Minute < Sub (startTime ew) (LastTimestamp event))"

section \<open>The mirror store and the logger\<close>

text \<open>
  The informer's store is the client library's. It is keyed by the object's
  \<open>namespace/name\<close> (the name alone when the namespace is empty); an object without
  metadata has no key. \<open>Delete\<close> removes the key and answers with an error when the
  object has no key or, as the specification describes the mirror, when the object is
  absent; \<open>deleteEvent\<close> logs the error and goes on.
\<close>

definition keyOf :: "event \<Rightarrow> string" where
  "keyOf e = (if Namespace e = [] then Name e else Namespace e @ ''/'' @ Name e)"

definition keyFunc :: "obj \<Rightarrow> string option" where
  "keyFunc obj = (case obj of EventPtr (Some e) \<Rightarrow> Some (keyOf e) | _ \<Rightarrow> None)"

definition store_Delete :: "(string \<rightharpoonup> event) \<Rightarrow> obj \<Rightarrow> (string \<rightharpoonup> event) \<times> string option" where
  "store_Delete m obj =
     (case keyFunc obj of
        None \<Rightarrow> (m, Some ''KeyError'')
      | Some k \<Rightarrow> (m(k := None), if k \<in> dom m then None else Some ''NotFoundError''))"

definition deleteEvent :: "obj \<Rightarrow> state \<Rightarrow> state" where
  "deleteEvent obj ew =
     (case store_Delete (store ew) obj of
        (m, None) \<Rightarrow> ew\<lparr>store := m\<rparr>
      | (m, Some err) \<Rightarrow>
          ew\<lparr>store := m, logger := logger ew @ [LogError err ''Could not delete object'']\<rparr>)"

text \<open>
  \<open>logEvent\<close> writes one record with the event's fields and its age, the wall clock
  reading minus the last timestamp, rounded to the second.
\<close>

definition logEvent :: "time \<Rightarrow> event \<Rightarrow> string \<Rightarrow> state \<Rightarrow> state" where
  "logEvent now event message ew =
     ew\<lparr>logger := logger ew @ [LogEvent message event (Round (Since now (LastTimestamp event)) Second)]\<rparr>"

section \<open>The notification handlers\<close>

text \<open>
  A handler gets the wall clock reading of its call and the object, and returns the
  panic it died of, if any, with the state it leaves. The type assertion
  \<open>obj.(*corev1.Event)\<close> is unchecked: it panics on any other dynamic type; a nil
  \<open>*corev1.Event\<close> passes it and panics where the timestamp is read.

  First the handlers of cmd/k8s-event-tailer/eventwatcher.go, which call \<open>isOldEvent\<close>.
\<close>

definition OnAdd :: "time \<Rightarrow> obj \<Rightarrow> state \<Rightarrow> panic option \<times> state" where
  "OnAdd now obj ew =
     (case obj of
        OtherObj t \<Rightarrow> (Some TypeAssertion, ew)
      | EventPtr None \<Rightarrow> (Some NilDereference, ew)
      | EventPtr (Some event) \<Rightarrow>
          (None,
           deleteEvent obj
             (if \<not> isOldEvent ew event
              then (logEvent now event ''Event added'' ew)
                     \<lparr>addCounter := addCounter ew + 1, ew_addCounter := ew_addCounter ew + 1\<rparr>
              else ew\<lparr>ew_oldEventsCounter := ew_oldEventsCounter ew + 1\<rparr>)))"

definition OnUpdate :: "time \<Rightarrow> obj \<Rightarrow> obj \<Rightarrow> state \<Rightarrow> panic option \<times> state" where
  "OnUpdate now oldObj newObj ew =
     (case newObj of
        OtherObj t \<Rightarrow> (Some TypeAssertion, ew)
      | EventPtr None \<Rightarrow> (Some NilDereference, ew)
      | EventPtr (Some event) \<Rightarrow>
          (None,
           deleteEvent newObj
             (if \<not> isOldEvent ew event
              then (logEvent now event ''Event updated'' ew)
                     \<lparr>updateCounter := updateCounter ew + 1, ew_updateCounter := ew_updateCounter ew + 1\<rparr>
              else ew\<lparr>ew_oldEventsCounter := ew_oldEventsCounter ew + 1\<rparr>)))"

text \<open>In \<open>OnDelete\<close> the call \<open>ew.deleteEvent(obj)\<close> is commented out.\<close>

definition OnDelete :: "time \<Rightarrow> obj \<Rightarrow> state \<Rightarrow> panic option \<times> state" where
  "OnDelete now obj ew =
     (case obj of
        OtherObj t \<Rightarrow> (Some TypeAssertion, ew)
      | EventPtr None \<Rightarrow> (Some NilDereference, ew)
      | EventPtr (Some event) \<Rightarrow>
          (None,
           if \<not> isOldEvent ew event
           then (logEvent now event ''Event deleted'' ew)
                  \<lparr>deleteCounter := deleteCounter ew + 1, ew_deleteCounter := ew_deleteCounter ew + 1\<rparr>
           else ew\<lparr>ew_oldEventsCounter := ew_oldEventsCounter ew + 1\<rparr>))"

text \<open>
  The handlers of the other eventwatcher source (the one with \<open>runStatsPrint\<close>), which
  differ in the test only.
\<close>

definition OnAdd_since :: "time \<Rightarrow> obj \<Rightarrow> state \<Rightarrow> panic option \<times> state" where
  "OnAdd_since now obj ew =
     (case obj of
        OtherObj t \<Rightarrow> (Some TypeAssertion, ew)
      | EventPtr None \<Rightarrow> (Some NilDereference, ew)
      | EventPtr (Some event) \<Rightarrow>
          (None,
           deleteEvent obj
             (if After (LastTimestamp event) (startTime ew)
                 \<or> Since now (LastTimestamp event) < oldEventAgeMinutes * Minute
              then (logEvent now event ''Event added'' ew)
                     \<lparr>addCounter := addCounter ew + 1, ew_addCounter := ew_addCounter ew + 1\<rparr>
              else ew\<lparr>ew_oldEventsCounter := ew_oldEventsCounter ew + 1\<rparr>)))"

definition OnUpdate_since :: "time \<Rightarrow> obj \<Rightarrow> obj \<Rightarrow> state \<Rightarrow> panic option \<times> state" where
  "OnUpdate_since now oldObj newObj ew =
     (case newObj of
        OtherObj t \<Rightarrow> (Some TypeAssertion, ew)
      | EventPtr None \<Rightarrow> (Some NilDereference, ew)
      | EventPtr (Some event) \<Rightarrow>
          (None,
           deleteEvent newObj
             (if After (LastTimestamp event) (startTime ew)
                 \<or> Since now (LastTimestamp event) < oldEventAgeMinutes * Minute
              then (logEvent now event ''Event updated'' ew)
                     \<lparr>updateCounter := updateCounter ew + 1, ew_updateCounter := ew_updateCounter ew + 1\<rparr>
              else ew\<lparr>ew_oldEventsCounter := ew_oldEventsCounter ew + 1\<rparr>)))"

definition OnDelete_since :: "time \<Rightarrow> obj \<Rightarrow> state \<Rightarrow> panic option \<times> state" where
  "OnDelete_since now obj ew =
     (case obj of
        OtherObj t \<Rightarrow> (Some TypeAssertion, ew)
      | EventPtr None \<Rightarrow> (Some NilDereference, ew)
      | EventPtr (Some event) \<Rightarrow>
          (None,
           if After (LastTimestamp event) (startTime ew)
              \<or> Since now (LastTimestamp event) < oldEventAgeMinutes * Minute
           then (logEvent now event ''Event deleted'' ew)
                  \<lparr>deleteCounter := deleteCounter ew + 1, ew_deleteCounter := ew_deleteCounter ew + 1\<rparr>
           else ew\<lparr>ew_oldEventsCounter := ew_oldEventsCounter ew + 1\<rparr>))"

section \<open>The stats reporter\<close>

text \<open>
  \<open>runStatsPrint\<close> runs in its own goroutine, next to the handlers and to \<open>main\<close>. What
  it meets is a schedule: \<open>main\<close> closes \<open>stopChan\<close>, the ticker puts a tick into its
  channel (which buffers one), or the goroutine gets to evaluate its \<open>select\<close>. A
  \<open>select\<close> with both cases ready takes one of them, chosen by the runtime (\<open>True\<close>: the
  stop case); with one case ready it takes that one; with none it keeps waiting. The tick
  case loads the three package-level counters and asks the store for its keys: the values
  it reads come with the schedule, since the handlers run in between.
\<close>

datatype sched =
    CloseStop
  | TickFires
  | Select bool "32 word" "32 word" "32 word" nat

datatype ticker = NoTicker | Running | Stopped

datatype outcome = Returned | Waiting | Panicked panic

fun statsLoop ::
  "32 word \<times> 32 word \<times> 32 word \<Rightarrow> bool \<Rightarrow> bool \<Rightarrow> sched list
     \<Rightarrow> log_record list \<times> ticker \<times> outcome" where
  "statsLoop prev stopClosed tickReady [] = ([], Running, Waiting)"
| "statsLoop prev stopClosed tickReady (CloseStop # es) = statsLoop prev True tickReady es"
| "statsLoop prev stopClosed tickReady (TickFires # es) = statsLoop prev stopClosed True es"
| "statsLoop (prevAdd, prevUpdate, prevDelete) stopClosed tickReady
       (Select pick addC updateC deleteC n # es) =
     (if stopClosed \<and> (\<not> tickReady \<or> pick) then
        ([LogInfo ''Stopping stats''], Stopped, Returned)
      else if tickReady then
        (case statsLoop (addC, updateC, deleteC) stopClosed False es of
           (l, t, x) \<Rightarrow>
             ([StatsStoreSize n,
               StatsCounters addC updateC deleteC,
               StatsDelta (addC - prevAdd) (updateC - prevUpdate) (deleteC - prevDelete)] @ l,
              t, x))
      else statsLoop (prevAdd, prevUpdate, prevDelete) stopClosed tickReady es)"

text \<open>
  \<open>statsIntervalSeconds\<close> is a Go \<open>int\<close> (64 bits); its product with \<open>time.Second\<close> wraps,
  and \<open>time.NewTicker\<close> panics on a period that is not positive.
\<close>

definition runStatsPrint :: "64 word \<Rightarrow> sched list \<Rightarrow> log_record list \<times> ticker \<times> outcome" where
  "runStatsPrint statsIntervalSeconds es =
     (if sint statsIntervalSeconds \<le> 0 then ([LogInfo ''Disabling stats''], NoTicker, Returned)
      else if sint (statsIntervalSeconds * 1000000000) \<le> 0 then
        ([], NoTicker, Panicked NonPositiveInterval)
      else
        (case statsLoop (0, 0, 0) False False es of
           (l, t, x) \<Rightarrow> (LogInfo ''Starting stats'' # l, t, x)))"

text \<open>The cumulative and the delta triples among the records of a log, in order.\<close>

fun cumulatives :: "log_record list \<Rightarrow> (32 word \<times> 32 word \<times> 32 word) list" where
  "cumulatives [] = []"
| "cumulatives (StatsCounters a u d # l) = (a, u, d) # cumulatives l"
| "cumulatives (r # l) = cumulatives l"

fun deltas :: "log_record list \<Rightarrow> (32 word \<times> 32 word \<times> 32 word) list" where
  "deltas [] = []"
| "deltas (StatsDelta a u d # l) = (a, u, d) # deltas l"
| "deltas (r # l) = deltas l"

fun minus3 :: "32 word \<times> 32 word \<times> 32 word \<Rightarrow> 32 word \<times> 32 word \<times> 32 word
     \<Rightarrow> 32 word \<times> 32 word \<times> 32 word" where
  "minus3 (a, u, d) (a', u', d') = (a - a', u - u', d - d')"

fun since_previous :: "32 word \<times> 32 word \<times> 32 word \<Rightarrow> (32 word \<times> 32 word \<times> 32 word) list
     \<Rightarrow> (32 word \<times> 32 word \<times> 32 word) list" where
  "since_previous p [] = []"
| "since_previous p (c # cs) = minus3 c p # since_previous c cs"

text \<open>
  The triples as the log prints them, as signed numbers; the difference of two such
  triples on the integers; and whether that difference is again three int32 values.
\<close>

fun sint3 :: "32 word \<times> 32 word \<times> 32 word \<Rightarrow> int \<times> int \<times> int" where
  "sint3 (a, u, d) = (sint a, sint u, sint d)"

fun diff3 :: "int \<times> int \<times> int \<Rightarrow> int \<times> int \<times> int \<Rightarrow> int \<times> int \<times> int" where
  "diff3 (a, u, d) (a', u', d') = (a - a', u - u', d - d')"

definition fitsInt32 :: "int \<Rightarrow> bool" where
  "fitsInt32 n = (- 2147483648 \<le> n \<and> n \<le> 2147483647)"

fun fits3 :: "int \<times> int \<times> int \<Rightarrow> bool" where
  "fits3 (a, u, d) = (fitsInt32 a \<and> fitsInt32 u \<and> fitsInt32 d)"

fun isSnapshot :: "log_record \<Rightarrow> bool" where
  "isSnapshot (StatsStoreSize n) = True"
| "isSnapshot (StatsCounters a u d) = True"
| "isSnapshot (StatsDelta a u d) = True"
| "isSnapshot _ = False"

section \<open>Reading a state\<close>

text \<open>
  What the properties below look at: all seven counters at once, the event records among
  the logger's output, whether a handler's call counted its event as old, and the state
  of a freshly started watcher.
\<close>

definition counters :: "state \<Rightarrow> (nat \<times> nat \<times> nat \<times> nat) \<times> (32 word \<times> 32 word \<times> 32 word)" where
  "counters ew =
     ((ew_addCounter ew, ew_updateCounter ew, ew_deleteCounter ew, ew_oldEventsCounter ew),
      (addCounter ew, updateCounter ew, deleteCounter ew))"



definition countedOld :: "panic option \<times> state \<Rightarrow> state \<Rightarrow> bool" where
  "countedOld r ew = (ew_oldEventsCounter (snd r) = ew_oldEventsCounter ew + 1)"

definition started :: "time \<Rightarrow> (string \<rightharpoonup> event) \<Rightarrow> state" where
  "started t m =
     \<lparr>startTime = t, store = m, logger = [],
      ew_addCounter = 0, ew_updateCounter = 0, ew_deleteCounter = 0, ew_oldEventsCounter = 0,
      addCounter = 0, updateCounter = 0, deleteCounter = 0\<rparr>"

definition nginxEvent :: "time \<Rightarrow> event" where
  "nginxEvent t =
     \<lparr>Namespace = ''default'', Name = ''nginx'', ResourceVersion = ''540352'',
      Message = ''Created container nginx'', LastTimestamp = t, Count = 1\<rparr>"



text \<open>
  How the counters of two states compare: no counter lower than before and none more than
  one higher, the int32 ones taken modulo \<open>2 ^ 32\<close> (\<open>stepsUp\<close>); every int32 counter
  below the largest int32 (\<open>belowMax\<close>); no int32 counter lower than before when read
  as the signed number it is (\<open>signedUp\<close>).
\<close>

definition stepsUp :: "state \<Rightarrow> state \<Rightarrow> bool" where
  "stepsUp ew ew' =
     (ew_addCounter ew \<le> ew_addCounter ew' \<and> ew_addCounter ew' \<le> ew_addCounter ew + 1
      \<and> ew_updateCounter ew \<le> ew_updateCounter ew' \<and> ew_updateCounter ew' \<le> ew_updateCounter ew + 1
      \<and> ew_deleteCounter ew \<le> ew_deleteCounter ew' \<and> ew_deleteCounter ew' \<le> ew_deleteCounter ew + 1
      \<and> ew_oldEventsCounter ew \<le> ew_oldEventsCounter ew'
      \<and> ew_oldEventsCounter ew' \<le> ew_oldEventsCounter ew + 1
      \<and> (addCounter ew' = addCounter ew \<or> addCounter ew' = addCounter ew + 1)
      \<and> (updateCounter ew' = updateCounter ew \<or> updateCounter ew' = updateCounter ew + 1)
      \<and> (deleteCounter ew' = deleteCounter ew \<or> deleteCounter ew' = deleteCounter ew + 1))"

definition belowMax :: "state \<Rightarrow> bool" where
  "belowMax ew =
     (sint (addCounter ew) < 2147483647
      \<and> sint (updateCounter ew) < 2147483647
      \<and> sint (deleteCounter ew) < 2147483647)"

definition signedUp :: "state \<Rightarrow> state \<Rightarrow> bool" where
  "signedUp ew ew' =
     (sint (addCounter ew) \<le> sint (addCounter ew')
      \<and> sint (updateCounter ew) \<le> sint (updateCounter ew')
      \<and> sint (deleteCounter ew) \<le> sint (deleteCounter ew'))"

section \<open>Auxiliary facts\<close>

subsection \<open>Five minutes, and what \<open>deleteEvent\<close> and \<open>logEvent\<close> leave alone\<close>

lemma five_minutes: "oldEventAgeMinutes * Minute = 300000000000"
  by (simp add: oldEventAgeMinutes_def Minute_def Second_def)

lemma five_Minute: "5 * Minute = 300000000000"
  by (simp add: Minute_def Second_def)

lemma Sub_gt_five_minutes: "(300000000000 < Sub t u) = (300000000000 < t - u)"
  by (simp add: Sub_def Let_def maxDuration_def minDuration_def)

lemma Since_lt_five_minutes: "(Since now t < 300000000000) = (now - t < 300000000000)"
  by (simp add: Since_def Sub_def Let_def maxDuration_def minDuration_def)


lemma ew_oldEventsCounter_deleteEvent:
  "ew_oldEventsCounter (deleteEvent obj ew) = ew_oldEventsCounter ew"
  by (simp add: deleteEvent_def split: prod.splits option.splits)

lemma store_deleteEvent:
  "store (deleteEvent (EventPtr (Some e)) ew) = (store ew)(keyOf e := None)"
  by (simp add: deleteEvent_def store_Delete_def keyFunc_def)


lemma counters_logEvent: "counters (logEvent now e m ew) = counters ew"
  by (simp add: logEvent_def counters_def)

subsection \<open>Which way a handler goes\<close>

lemmas handler_defs =
  OnAdd_def OnUpdate_def OnDelete_def OnAdd_since_def OnUpdate_since_def OnDelete_since_def

lemma isOldEvent_iff:
  "isOldEvent ew e =
     (LastTimestamp e \<le> startTime ew \<and> 300000000000 < startTime ew - LastTimestamp e)"
  by (auto simp add: isOldEvent_def After_def five_minutes Sub_gt_five_minutes)

lemma countedOld_isOldEvent:
  "countedOld (OnAdd now (EventPtr (Some e)) ew) ew = isOldEvent ew e"
  "countedOld (OnUpdate now oldObj (EventPtr (Some e)) ew) ew = isOldEvent ew e"
  "countedOld (OnDelete now (EventPtr (Some e)) ew) ew = isOldEvent ew e"
  by (auto simp add: countedOld_def handler_defs ew_oldEventsCounter_deleteEvent logEvent_def)

lemma countedOld_since:
  "countedOld (OnAdd_since now (EventPtr (Some e)) ew) ew
     = (LastTimestamp e \<le> startTime ew \<and> 300000000000 \<le> now - LastTimestamp e)"
  "countedOld (OnUpdate_since now oldObj (EventPtr (Some e)) ew) ew
     = (LastTimestamp e \<le> startTime ew \<and> 300000000000 \<le> now - LastTimestamp e)"
  "countedOld (OnDelete_since now (EventPtr (Some e)) ew) ew
     = (LastTimestamp e \<le> startTime ew \<and> 300000000000 \<le> now - LastTimestamp e)"
  by (auto simp add: countedOld_def handler_defs ew_oldEventsCounter_deleteEvent
        five_minutes Since_lt_five_minutes After_def logEvent_def)



subsection \<open>What a handler leaves behind\<close>

lemma fields_deleteEvent:
  "startTime (deleteEvent obj ew) = startTime ew"
  "ew_addCounter (deleteEvent obj ew) = ew_addCounter ew"
  "ew_updateCounter (deleteEvent obj ew) = ew_updateCounter ew"
  "ew_deleteCounter (deleteEvent obj ew) = ew_deleteCounter ew"
  "addCounter (deleteEvent obj ew) = addCounter ew"
  "updateCounter (deleteEvent obj ew) = updateCounter ew"
  "deleteCounter (deleteEvent obj ew) = deleteCounter ew"
  by (simp_all add: deleteEvent_def split: prod.splits option.splits)









subsection \<open>The stats loop\<close>

lemma since_previous_length: "length (since_previous p cs) = length cs"
  by (induction cs arbitrary: p) simp_all

lemma since_previous_nth:
  "i < length cs \<Longrightarrow>
     since_previous p cs ! i = minus3 (cs ! i) (if i = 0 then p else cs ! (i - 1))"
proof (induction cs arbitrary: p i)
  case Nil
  then show ?case by simp
next
  case (Cons c cs)
  show ?case
  proof (cases i)
    case 0
    then show ?thesis by simp
  next
    case (Suc j)
    with Cons.prems have "j < length cs" by simp
    from Cons.IH [OF this, of c] Suc show ?thesis
      by (cases j) simp_all
  qed
qed

lemma minus3_zero: "minus3 c (0, 0, 0) = c"
  by (cases c) simp

lemma statsLoop_deltas:
  "deltas (fst (statsLoop prev stop tick es))
     = since_previous prev (cumulatives (fst (statsLoop prev stop tick es)))"
  by (induction prev stop tick es rule: statsLoop.induct)
     (auto split: prod.splits)

lemma runStatsPrint_deltas:
  "deltas (fst (runStatsPrint k es))
     = since_previous (0, 0, 0) (cumulatives (fst (runStatsPrint k es)))"
  using statsLoop_deltas [of "(0, 0, 0)" False False es]
  by (auto simp add: runStatsPrint_def split: prod.splits)

lemma sint_minus_iff:
  "(sint (c - p :: 32 word) = sint c - sint p) = fitsInt32 (sint c - sint p)"
proof -
  have "sint (c - p) = signed_take_bit 31 (sint c - sint p)"
    by (simp add: sint_word_ariths)
  then show ?thesis
    by (auto simp add: fitsInt32_def signed_take_bit_int_eq_self_iff)
qed

lemma sint3_minus3_iff:
  "(sint3 (minus3 c p) = diff3 (sint3 c) (sint3 p)) = fits3 (diff3 (sint3 c) (sint3 p))"
  by (cases c; cases p) (simp add: sint_minus_iff)

lemma wrap_ticks:
  "runStatsPrint 10
       [TickFires, Select False 2147483647 0 0 0, TickFires, Select False (- 2147483648) 0 0 0]
     = ([LogInfo ''Starting stats'',
         StatsStoreSize 0, StatsCounters 2147483647 0 0, StatsDelta 2147483647 0 0,
         StatsStoreSize 0, StatsCounters (- 2147483648) 0 0, StatsDelta 1 0 0], Running, Waiting)"
  by (simp add: runStatsPrint_def)

lemma two_ticks:
  "runStatsPrint 10 [TickFires, Select False 7 0 0 7, TickFires, Select False 9 1 0 2]
     = ([LogInfo ''Starting stats'',
         StatsStoreSize 7, StatsCounters 7 0 0, StatsDelta 7 0 0,
         StatsStoreSize 2, StatsCounters 9 1 0, StatsDelta 2 1 0], Running, Waiting)"
  by (simp add: runStatsPrint_def)

lemma statsLoop_Returned:
  "snd (snd (statsLoop prev stop tick es)) = Returned \<Longrightarrow>
     fst (statsLoop prev stop tick es) \<noteq> []
     \<and> last (fst (statsLoop prev stop tick es)) = LogInfo ''Stopping stats''
     \<and> list_all isSnapshot (butlast (fst (statsLoop prev stop tick es)))
     \<and> fst (snd (statsLoop prev stop tick es)) = Stopped"
  by (induction prev stop tick es rule: statsLoop.induct)
     (auto split: prod.splits if_splits simp add: butlast_append)

subsection \<open>Counting up\<close>

lemma stepsUp_deleteEvent: "stepsUp ew (deleteEvent obj ew') = stepsUp ew ew'"
  by (simp add: stepsUp_def fields_deleteEvent ew_oldEventsCounter_deleteEvent)

lemma stepsUp_handlers:
  "stepsUp ew (snd (OnAdd now obj ew))"
  "stepsUp ew (snd (OnUpdate now oldObj obj ew))"
  "stepsUp ew (snd (OnDelete now obj ew))"
  "stepsUp ew (snd (OnAdd_since now obj ew))"
  "stepsUp ew (snd (OnUpdate_since now oldObj obj ew))"
  "stepsUp ew (snd (OnDelete_since now obj ew))"
  by (simp_all add: handler_defs stepsUp_deleteEvent split: obj.splits option.splits)
     (simp_all add: stepsUp_def logEvent_def)

lemma sint_plus_one:
  "sint (c :: 32 word) < 2147483647 \<Longrightarrow> sint (c + 1) = sint c + 1"
proof -
  assume h: "sint c < 2147483647"
  have lo: "- (2 ^ 31) \<le> sint c"
    using sint_ge [of c] by simp
  have "sint (c + 1) = signed_take_bit 31 (sint c + 1)"
    by (simp add: sint_word_ariths)
  also have "\<dots> = sint c + 1"
    using h lo by (intro signed_take_bit_int_eq_self) simp_all
  finally show ?thesis .
qed

lemma stepsUp_signedUp: "stepsUp ew ew' \<Longrightarrow> belowMax ew \<Longrightarrow> signedUp ew ew'"
  by (auto simp add: stepsUp_def belowMax_def signedUp_def sint_plus_one)

lemma startTime_OnAdd: "startTime (snd (OnAdd now obj ew)) = startTime ew"
  by (simp add: OnAdd_def fields_deleteEvent logEvent_def split: obj.splits option.splits)

lemma addCounter_OnAdd_fresh:
  "\<not> isOldEvent ew e \<Longrightarrow> addCounter (snd (OnAdd now (EventPtr (Some e)) ew)) = addCounter ew + 1"
  by (simp add: OnAdd_def fields_deleteEvent logEvent_def)

lemma addCounter_fold_OnAdd:
  "\<forall>e \<in> set evs. \<not> isOldEvent ew e \<Longrightarrow>
     addCounter (fold (\<lambda>e ew. snd (OnAdd now (EventPtr (Some e)) ew)) evs ew)
       = addCounter ew + of_nat (length evs)"
proof (induction evs arbitrary: ew)
  case Nil
  then show ?case by simp
next
  case (Cons e evs)
  let ?ew = "snd (OnAdd now (EventPtr (Some e)) ew)"
  have "\<forall>e' \<in> set evs. \<not> isOldEvent ?ew e'"
    using Cons.prems by (simp add: isOldEvent_iff startTime_OnAdd)
  from Cons.IH [OF this] Cons.prems show ?case
    by (simp add: addCounter_OnAdd_fresh)
qed

lemma addCounter_reaches_max:
  "addCounter (fold (\<lambda>e ew. snd (OnAdd 0 (EventPtr (Some e)) ew))
      (replicate 2147483647 (nginxEvent 0)) (started 0 Map.empty)) = 2147483647"
proof -
  have "\<forall>e \<in> set (replicate 2147483647 (nginxEvent 0)). \<not> isOldEvent (started 0 Map.empty) e"
    by (simp add: isOldEvent_iff started_def nginxEvent_def)
  from addCounter_fold_OnAdd [OF this, of 0] show ?thesis
    by (simp add: started_def)
qed

lemma nil_event_panics:
  "OnAdd now (EventPtr None) ew = (Some NilDereference, ew)"
  "OnUpdate now oldObj (EventPtr None) ew = (Some NilDereference, ew)"
  "OnDelete now (EventPtr None) ew = (Some NilDereference, ew)"
  "OnAdd_since now (EventPtr None) ew = (Some NilDereference, ew)"
  "OnUpdate_since now oldObj (EventPtr None) ew = (Some NilDereference, ew)"
  "OnDelete_since now (EventPtr None) ew = (Some NilDereference, ew)"
  by (simp_all add: handler_defs)

lemma sint_minus_no_wrap:
  "0 \<le> sint p \<Longrightarrow> sint p \<le> sint c \<Longrightarrow> sint (c - p :: 32 word) = sint c - sint p"
proof -
  assume h: "0 \<le> sint p" "sint p \<le> sint c"
  have hi: "sint c < 2 ^ 31"
    using sint_lt [of c] by simp
  have "sint (c - p) = signed_take_bit 31 (sint c - sint p)"
    by (simp add: sint_word_ariths)
  also have "\<dots> = sint c - sint p"
    using h hi by (intro signed_take_bit_int_eq_self) simp_all
  finally show ?thesis .
qed

section \<open>Staleness\<close>

text \<open>
  Claim C1, as the code has it. \<open>isOldEvent\<close> is the classification the claim describes:
  an event whose last timestamp is after the start time is never old, whatever the
  distance; one at or before the start time is old exactly when the start time minus the
  last timestamp is more than five minutes, so not at five minutes sharp. The handlers
  that call \<open>isOldEvent\<close> count an event as old exactly when it says so. The handlers of
  the other eventwatcher source test in line against the wall clock instead: they count
  an event as old exactly when its last timestamp is at or before the start time and the
  wall clock reading of the call minus the last timestamp is five minutes or more.
\<close>

theorem staleness_classification:
  "(startTime ew < LastTimestamp e \<longrightarrow> \<not> isOldEvent ew e)
   \<and> (LastTimestamp e \<le> startTime ew \<longrightarrow>
        isOldEvent ew e = (5 * Minute < startTime ew - LastTimestamp e))
   \<and> countedOld (OnAdd now (EventPtr (Some e)) ew) ew = isOldEvent ew e
   \<and> countedOld (OnUpdate now oldObj (EventPtr (Some e)) ew) ew = isOldEvent ew e
   \<and> countedOld (OnDelete now (EventPtr (Some e)) ew) ew = isOldEvent ew e
   \<and> countedOld (OnAdd_since now (EventPtr (Some e)) ew) ew
        = (LastTimestamp e \<le> startTime ew \<and> 5 * Minute \<le> now - LastTimestamp e)
   \<and> countedOld (OnUpdate_since now oldObj (EventPtr (Some e)) ew) ew
        = (LastTimestamp e \<le> startTime ew \<and> 5 * Minute \<le> now - LastTimestamp e)
   \<and> countedOld (OnDelete_since now (EventPtr (Some e)) ew) ew
        = (LastTimestamp e \<le> startTime ew \<and> 5 * Minute \<le> now - LastTimestamp e)"
  by (simp add: countedOld_isOldEvent countedOld_since isOldEvent_iff five_Minute)

text \<open>
  The theorem at work: five minutes sharp before the start is not old, one nanosecond
  after the start is not old, five minutes and a nanosecond before the start is old.
\<close>

theorem staleness_classification_witness:
  "LastTimestamp (nginxEvent 0) \<le> startTime (started 300000000000 Map.empty)
   \<and> \<not> isOldEvent (started 300000000000 Map.empty) (nginxEvent 0)
   \<and> startTime (started 0 Map.empty) < LastTimestamp (nginxEvent 1)
   \<and> \<not> isOldEvent (started 0 Map.empty) (nginxEvent 1)
   \<and> isOldEvent (started 300000000001 Map.empty) (nginxEvent 0)"
  using staleness_classification [of "started 300000000000 Map.empty" "nginxEvent 0" 0]
    staleness_classification [of "started 0 Map.empty" "nginxEvent 1" 0]
    staleness_classification [of "started 300000000001 Map.empty" "nginxEvent 0" 0]
  by (simp add: started_def nginxEvent_def five_Minute)

text \<open>
  Where the claim fails: an event four minutes before the start, notified two minutes
  after the start to the handler with the in-line test. The start time minus the last
  timestamp is not more than five minutes, yet the event is counted as old.
\<close>

theorem staleness_since_counterexample:
  "LastTimestamp (nginxEvent 0) \<le> startTime (started 240000000000 Map.empty)
   \<and> \<not> 5 * Minute < startTime (started 240000000000 Map.empty) - LastTimestamp (nginxEvent 0)
   \<and> countedOld (OnAdd_since 360000000000 (EventPtr (Some (nginxEvent 0)))
         (started 240000000000 Map.empty)) (started 240000000000 Map.empty)"
  by (simp add: countedOld_since started_def nginxEvent_def five_Minute)




section \<open>What a notification does\<close>



text \<open>
  Claim C4, as the code has it. In \<open>OnDelete\<close> the call of \<open>deleteEvent\<close> is commented
  out, in both eventwatcher sources: a delete notification leaves the store exactly as it
  was, whatever the object, and the log gains the event record at most, never the
  record of a failed removal.
\<close>

theorem OnDelete_keeps_store:
  "store (snd (OnDelete now obj ew)) = store ew
   \<and> store (snd (OnDelete_since now obj ew)) = store ew
   \<and> (logger (snd (OnDelete now (EventPtr (Some e)) ew)) = logger ew
       \<or> logger (snd (OnDelete now (EventPtr (Some e)) ew))
           = logger ew @ [LogEvent ''Event deleted'' e (Round (Since now (LastTimestamp e)) Second)])
   \<and> (logger (snd (OnDelete_since now (EventPtr (Some e)) ew)) = logger ew
       \<or> logger (snd (OnDelete_since now (EventPtr (Some e)) ew))
           = logger ew @ [LogEvent ''Event deleted'' e (Round (Since now (LastTimestamp e)) Second)])"
  by (simp add: handler_defs logEvent_def split: obj.splits option.splits)

text \<open>The theorem at work, on an event that is no longer in the store.\<close>

theorem OnDelete_keeps_store_witness:
  "store (snd (OnDelete 0 (EventPtr (Some (nginxEvent 0))) (started 0 Map.empty))) = Map.empty
   \<and> store (snd (OnDelete_since 0 (EventPtr (Some (nginxEvent 0))) (started 0 Map.empty)))
       = Map.empty"
  using OnDelete_keeps_store [of 0 "EventPtr (Some (nginxEvent 0))" "started 0 Map.empty"]
  by (simp add: started_def)

text \<open>
  Where the claim fails: a delete notification about an event that the store still
  holds. After \<open>OnDelete\<close> the store holds it still; \<open>deleteEvent\<close>, the removal step of
  the other two handlers, would have removed it.
\<close>

theorem OnDelete_removal_counterexample:
  "store (snd (OnDelete 0 (EventPtr (Some (nginxEvent 0)))
       (started 0 [''default/nginx'' \<mapsto> nginxEvent 0]))) ''default/nginx''
     = Some (nginxEvent 0)
   \<and> store (snd (OnDelete_since 0 (EventPtr (Some (nginxEvent 0)))
       (started 0 [''default/nginx'' \<mapsto> nginxEvent 0]))) ''default/nginx''
     = Some (nginxEvent 0)
   \<and> store (deleteEvent (EventPtr (Some (nginxEvent 0)))
       (started 0 [''default/nginx'' \<mapsto> nginxEvent 0])) ''default/nginx'' = None"
  by (simp add: handler_defs logEvent_def store_deleteEvent)
     (simp add: started_def nginxEvent_def keyOf_def)


section \<open>The stats reporter's runs\<close>

text \<open>
  Claim C5, as the code has it. In the log of any run of \<open>runStatsPrint\<close> there are as
  many delta triples as cumulative triples, and the delta triple of each tick is the
  cumulative triple of that tick minus the cumulative triple of the tick before, field
  by field, in the subtraction of int32, which is modulo \<open>2 ^ 32\<close>; for the first tick
  it is the cumulative triple minus zero, that is, the cumulative triple itself. Read
  as the signed numbers the log prints, the delta of a tick is the difference of the two
  cumulative values exactly when that difference is itself an int32 value.
\<close>

theorem stats_deltas:
  "length (deltas (fst (runStatsPrint k es))) = length (cumulatives (fst (runStatsPrint k es)))
   \<and> (\<forall>i < length (cumulatives (fst (runStatsPrint k es))).
        deltas (fst (runStatsPrint k es)) ! i
          = minus3 (cumulatives (fst (runStatsPrint k es)) ! i)
              (if i = 0 then (0, 0, 0) else cumulatives (fst (runStatsPrint k es)) ! (i - 1)))
   \<and> (cumulatives (fst (runStatsPrint k es)) \<noteq> [] \<longrightarrow>
        deltas (fst (runStatsPrint k es)) ! 0 = cumulatives (fst (runStatsPrint k es)) ! 0)
   \<and> (\<forall>i < length (cumulatives (fst (runStatsPrint k es))).
        (sint3 (deltas (fst (runStatsPrint k es)) ! i)
           = diff3 (sint3 (cumulatives (fst (runStatsPrint k es)) ! i))
               (sint3 (if i = 0 then (0, 0, 0)
                       else cumulatives (fst (runStatsPrint k es)) ! (i - 1))))
        = fits3 (diff3 (sint3 (cumulatives (fst (runStatsPrint k es)) ! i))
               (sint3 (if i = 0 then (0, 0, 0)
                       else cumulatives (fst (runStatsPrint k es)) ! (i - 1)))))"
proof -
  let ?c = "cumulatives (fst (runStatsPrint k es))"
  let ?d = "deltas (fst (runStatsPrint k es))"
  have nth: "\<forall>i < length ?c. ?d ! i = minus3 (?c ! i) (if i = 0 then (0, 0, 0) else ?c ! (i - 1))"
    by (simp add: runStatsPrint_deltas since_previous_nth)
  have len: "length ?d = length ?c"
    by (simp add: runStatsPrint_deltas since_previous_length)
  have first: "?c \<noteq> [] \<longrightarrow> ?d ! 0 = ?c ! 0"
    using nth by (simp add: minus3_zero)
  have signed: "\<forall>i < length ?c.
        (sint3 (?d ! i) = diff3 (sint3 (?c ! i)) (sint3 (if i = 0 then (0, 0, 0) else ?c ! (i - 1))))
        = fits3 (diff3 (sint3 (?c ! i)) (sint3 (if i = 0 then (0, 0, 0) else ?c ! (i - 1))))"
  proof (intro allI impI)
    fix i assume "i < length ?c"
    with nth have "?d ! i = minus3 (?c ! i) (if i = 0 then (0, 0, 0) else ?c ! (i - 1))"
      by blast
    then show "(sint3 (?d ! i)
          = diff3 (sint3 (?c ! i)) (sint3 (if i = 0 then (0, 0, 0) else ?c ! (i - 1))))
        = fits3 (diff3 (sint3 (?c ! i)) (sint3 (if i = 0 then (0, 0, 0) else ?c ! (i - 1))))"
      by (simp only: sint3_minus3_iff)
  qed
  from len nth first signed show ?thesis
    by (intro conjI)
qed

text \<open>
  The theorem at work on a run of two ticks: 7 events added at the first, 9 added and 1
  updated at the second.
\<close>

theorem stats_deltas_witness:
  "(1::nat) < length (cumulatives (fst (runStatsPrint 10
       [TickFires, Select False 7 0 0 7, TickFires, Select False 9 1 0 2])))
   \<and> deltas (fst (runStatsPrint 10
       [TickFires, Select False 7 0 0 7, TickFires, Select False 9 1 0 2])) ! 0 = (7, 0, 0)
   \<and> deltas (fst (runStatsPrint 10
       [TickFires, Select False 7 0 0 7, TickFires, Select False 9 1 0 2])) ! 1 = (2, 1, 0)
   \<and> fits3 (diff3 (sint3 (9, 1, 0)) (sint3 (7, 0, 0)))
   \<and> sint3 (deltas (fst (runStatsPrint 10
       [TickFires, Select False 7 0 0 7, TickFires, Select False 9 1 0 2])) ! 1)
       = diff3 (sint3 (9, 1, 0)) (sint3 (7, 0, 0))"
  using stats_deltas [of 10 "[TickFires, Select False 7 0 0 7, TickFires, Select False 9 1 0 2]"]
  by (simp add: two_ticks fitsInt32_def)

text \<open>
  Where the claim fails: \<open>addCounter\<close> is loaded as 2147483647 at one tick and, one
  reported add later, as -2147483648 at the next. The delta printed is 1; the second
  value minus the first is -4294967295.
\<close>

theorem delta_wraps_counterexample:
  "sint3 (cumulatives (fst (runStatsPrint 10
       [TickFires, Select False 2147483647 0 0 0, TickFires,
        Select False (- 2147483648) 0 0 0])) ! 0) = (2147483647, 0, 0)
   \<and> sint3 (cumulatives (fst (runStatsPrint 10
       [TickFires, Select False 2147483647 0 0 0, TickFires,
        Select False (- 2147483648) 0 0 0])) ! 1) = (- 2147483648, 0, 0)
   \<and> sint3 (deltas (fst (runStatsPrint 10
       [TickFires, Select False 2147483647 0 0 0, TickFires,
        Select False (- 2147483648) 0 0 0])) ! 1) = (1, 0, 0)
   \<and> diff3 (- 2147483648, 0, 0) (2147483647, 0, 0) = (- 4294967295, 0, 0)"
  by (simp add: wrap_ticks)

text \<open>
  Claim C6. With an interval of zero or less, whatever the schedule, \<open>runStatsPrint\<close>
  writes the one record that stats are disabled, creates no ticker and returns; no
  snapshot is ever written.
\<close>

theorem stats_disabled:
  "sint k \<le> 0 \<Longrightarrow> runStatsPrint k es = ([LogInfo ''Disabling stats''], NoTicker, Returned)"
  by (simp add: runStatsPrint_def)

text \<open>The theorem at work, at the intervals 0 and -1.\<close>

theorem stats_disabled_witness:
  "sint (0 :: 64 word) \<le> 0
   \<and> runStatsPrint 0 [TickFires, Select False 7 0 0 7, CloseStop, Select True 7 0 0 7]
       = ([LogInfo ''Disabling stats''], NoTicker, Returned)
   \<and> sint (- 1 :: 64 word) \<le> 0
   \<and> runStatsPrint (- 1) [] = ([LogInfo ''Disabling stats''], NoTicker, Returned)"
  using stats_disabled [of 0 "[TickFires, Select False 7 0 0 7, CloseStop, Select True 7 0 0 7]"]
    stats_disabled [of "- 1" "[]"]
  by simp

text \<open>
  Claim C7, as the code has it. When the \<open>select\<close> takes the stop case (the stop channel
  is closed and either no tick is pending or the runtime picks the stop case, a pending
  tick notwithstanding), the reporter writes that stats are stopping, stops the ticker
  and returns, whatever the schedule holds next. In every run that has returned, the
  stopping record is the last one and all records between the starting record and it
  are snapshot records: nothing is written after the stop is observed. Between the
  closing of the stop channel and that \<open>select\<close>, a pending tick can still be served.
\<close>

theorem stop_observed:
  "statsLoop prev True tickReady (Select True a u d n # es)
     = ([LogInfo ''Stopping stats''], Stopped, Returned)
   \<and> statsLoop prev True False (Select pick a u d n # es)
     = ([LogInfo ''Stopping stats''], Stopped, Returned)
   \<and> (0 < sint k \<and> snd (snd (runStatsPrint k es')) = Returned \<longrightarrow>
        last (fst (runStatsPrint k es')) = LogInfo ''Stopping stats''
        \<and> list_all isSnapshot (butlast (tl (fst (runStatsPrint k es'))))
        \<and> fst (snd (runStatsPrint k es')) = Stopped)"
proof (intro conjI impI)
  show "statsLoop prev True tickReady (Select True a u d n # es)
     = ([LogInfo ''Stopping stats''], Stopped, Returned)"
    by (cases prev) simp
  show "statsLoop prev True False (Select pick a u d n # es)
     = ([LogInfo ''Stopping stats''], Stopped, Returned)"
    by (cases prev) simp
next
  assume h: "0 < sint k \<and> snd (snd (runStatsPrint k es')) = Returned"
  then have r: "snd (snd (statsLoop (0, 0, 0) False False es')) = Returned"
    by (simp add: runStatsPrint_def split: if_splits prod.splits)
  from h have run: "runStatsPrint k es' =
      (LogInfo ''Starting stats'' # fst (statsLoop (0, 0, 0) False False es'),
       snd (statsLoop (0, 0, 0) False False es'))"
    by (simp add: runStatsPrint_def split: if_splits prod.splits)
  note s = statsLoop_Returned [OF r]
  from s show "last (fst (runStatsPrint k es')) = LogInfo ''Stopping stats''"
    by (simp add: run)
  from s show "list_all isSnapshot (butlast (tl (fst (runStatsPrint k es'))))"
    by (simp add: run)
  from s show "fst (snd (runStatsPrint k es')) = Stopped"
    by (simp add: run)
qed

text \<open>
  The theorem at work: a tick is pending when the stop channel is closed, the runtime
  picks the stop case, and the tick that fires later is never served.
\<close>

theorem stop_observed_witness:
  "0 < sint (10 :: 64 word)
   \<and> snd (snd (runStatsPrint 10 [TickFires, CloseStop, Select True 7 0 0 7, TickFires,
         Select False 9 0 0 0])) = Returned
   \<and> fst (runStatsPrint 10 [TickFires, CloseStop, Select True 7 0 0 7, TickFires,
         Select False 9 0 0 0]) = [LogInfo ''Starting stats'', LogInfo ''Stopping stats'']"
  using stop_observed [of "(0, 0, 0)" True 7 0 0 7 "[TickFires, Select False 9 0 0 0]" False 10
      "[TickFires, CloseStop, Select True 7 0 0 7, TickFires, Select False 9 0 0 0]"]
  by (simp add: runStatsPrint_def)

text \<open>
  Where the claim fails: a tick is pending when the stop channel is closed, and the
  runtime picks the tick case. A snapshot is written after the stop signal; the
  reporter stops at the next \<open>select\<close>.
\<close>

theorem pending_tick_counterexample:
  "runStatsPrint 10 [TickFires, CloseStop, Select False 7 0 0 7, Select False 7 0 0 0]
     = ([LogInfo ''Starting stats'',
         StatsStoreSize 7, StatsCounters 7 0 0, StatsDelta 7 0 0,
         LogInfo ''Stopping stats''], Stopped, Returned)"
  by (simp add: runStatsPrint_def)

section \<open>The counters\<close>

text \<open>
  Claim C8, as the code has it. The handlers are the only operations that write the
  counters (the stats reporter is handed what it loads). Each handler leaves every
  counter as it was or adds one to it; nothing resets or lowers a Prometheus counter.
  The three package-level counters are int32, and adding one is modulo \<open>2 ^ 32\<close>: read
  as the signed numbers they are, they do not go down as long as they are below
  2147483647, the largest int32.
\<close>

theorem counters_step:
  "stepsUp ew (snd (OnAdd now obj ew))
   \<and> stepsUp ew (snd (OnUpdate now oldObj obj ew))
   \<and> stepsUp ew (snd (OnDelete now obj ew))
   \<and> stepsUp ew (snd (OnAdd_since now obj ew))
   \<and> stepsUp ew (snd (OnUpdate_since now oldObj obj ew))
   \<and> stepsUp ew (snd (OnDelete_since now obj ew))
   \<and> (belowMax ew \<longrightarrow>
        signedUp ew (snd (OnAdd now obj ew))
        \<and> signedUp ew (snd (OnUpdate now oldObj obj ew))
        \<and> signedUp ew (snd (OnDelete now obj ew))
        \<and> signedUp ew (snd (OnAdd_since now obj ew))
        \<and> signedUp ew (snd (OnUpdate_since now oldObj obj ew))
        \<and> signedUp ew (snd (OnDelete_since now obj ew)))"
  by (simp add: stepsUp_handlers stepsUp_signedUp)

text \<open>The theorem at work: the first event reported after the start.\<close>

theorem counters_step_witness:
  "belowMax (started 0 Map.empty)
   \<and> signedUp (started 0 Map.empty)
        (snd (OnAdd 0 (EventPtr (Some (nginxEvent 0))) (started 0 Map.empty)))
   \<and> addCounter (snd (OnAdd 0 (EventPtr (Some (nginxEvent 0))) (started 0 Map.empty))) = 1"
  using counters_step [of "started 0 Map.empty" 0 "EventPtr (Some (nginxEvent 0))" "EventPtr None"]
  by (simp add: belowMax_def)
     (simp add: started_def nginxEvent_def OnAdd_def isOldEvent_iff logEvent_def fields_deleteEvent)

text \<open>
  Where the claim fails: \<open>addCounter\<close> at 2147483647, which 2147483647 reported add
  notifications after the start lead to (\<open>addCounter_reaches_max\<close>). The next reported
  add takes it down to -2147483648.
\<close>

theorem counter_wraps_counterexample:
  "sint (addCounter ((started 0 Map.empty)\<lparr>addCounter := 2147483647\<rparr>)) = 2147483647
   \<and> sint (addCounter (snd (OnAdd 0 (EventPtr (Some (nginxEvent 0)))
        ((started 0 Map.empty)\<lparr>addCounter := 2147483647\<rparr>)))) = - 2147483648"
  by (simp add: started_def nginxEvent_def OnAdd_def isOldEvent_iff logEvent_def fields_deleteEvent)

end
